theory Spec2Isabelle
  imports Main
begin

section \<open>sdbusplus/server/object.hpp: composing interface bindings into one dbus object\<close>

text \<open>
  The header defines two things: the \<open>details::compose\<close> templates, which fold a list of
  interface binding types into one aggregate by multiple inheritance, and
  \<open>object<Args...>\<close>, which derives from that aggregate and sends the object-added and
  object-removed signals around its lifetime.

  Every call the header makes into code it does not define (the constructor, destructor and
  \<open>emit_added()\<close> of a binding type; the two \<open>sd_bus_emit_object_*\<close> functions of
  \<open>SdBusInterface\<close>) is recorded, in program order, in a list of events. A C++ exception is
  the \<open>Inl\<close> branch of a sum. Operations return the events they caused together with either
  the exception that left them or the updated object.
\<close>

subsection \<open>Collaborators declared outside this header\<close>

type_synonym path = string

text \<open>
  \<open>bus::bus\<close> comes from \<open>sdbusplus/bus.hpp\<close>. The header uses two of its accessors,
  \<open>get()\<close> (the raw \<open>sd_bus*\<close>) and \<open>getInterface()\<close> (the \<open>SdBusInterface*\<close>), and builds
  its own \<open>bus::bus\<close> member from exactly these two values. Pointers are natural numbers.
\<close>

record bus_bus =
  bus_get :: nat
  bus_getInterface :: nat

text \<open>
  \<open>SdBusInterface\<close> comes from \<open>sdbusplus/sdbus.hpp\<close>. Its member functions carry the names
  of the sd-bus C functions they stand for. What a call through the interface pointer does
  is not fixed by this header, so it is a parameter of every operation that makes one: the
  call either comes back with the status of the sd-bus function (by sd-bus convention a
  negative errno-style value reports failure), or it raises.
\<close>

datatype sd_result = Returned int | Threw

fun sd_failed :: "sd_result \<Rightarrow> bool" where
  "sd_failed (Returned rc) = (rc < 0)"
| "sd_failed Threw = True"

text \<open>
  An interface binding type \<open>T\<close> of the template parameter pack. The header relies on a
  constructor \<open>T(bus, path)\<close>, on \<open>T::emit_added()\<close> and on the destructor. Whether the
  constructor or \<open>emit_added()\<close> raises is a property of the binding.
\<close>

record iface_module =
  type_name :: string
  ctor_throws :: bool
  emit_added_throws :: bool

datatype exn =
    ModuleCtorError string
  | EmitAddedError string
  | SdBusError

datatype event =
    ModuleCtor string bus_bus path
  | ModuleDtor string
  | InterfaceAdded string
  | ObjectAdded nat path sd_result
  | ObjectRemoved nat path sd_result
  | MemberCtor string
  | MemberDtor string

text \<open>
  \<open>ModuleCtor T bus path\<close>: the call \<open>T(bus, path)\<close>; \<open>ModuleDtor T\<close>: the call of \<open>~T()\<close>;
  \<open>InterfaceAdded T\<close>: the call \<open>T::emit_added()\<close>;
  \<open>ObjectAdded b p r\<close>: the call \<open>intf->sd_bus_emit_object_added(b, p)\<close> with outcome \<open>r\<close>;
  \<open>ObjectRemoved b p r\<close>: the call \<open>intf->sd_bus_emit_object_removed(b, p)\<close> with outcome \<open>r\<close>;
  \<open>MemberCtor m\<close> and \<open>MemberDtor m\<close>: construction and destruction of the class-type data
  member \<open>m\<close> of \<open>object\<close>.
\<close>

fun is_object_added :: "event \<Rightarrow> bool" where
  "is_object_added (ObjectAdded b p r) = True"
| "is_object_added e = False"

fun is_object_removed :: "event \<Rightarrow> bool" where
  "is_object_removed (ObjectRemoved b p r) = True"
| "is_object_removed e = False"

fun is_interface_added :: "event \<Rightarrow> bool" where
  "is_interface_added (InterfaceAdded T) = True"
| "is_interface_added e = False"

fun is_notification :: "event \<Rightarrow> bool" where
  "is_notification (ObjectAdded b p r) = True"
| "is_notification (ObjectRemoved b p r) = True"
| "is_notification (InterfaceAdded T) = True"
| "is_notification e = False"

fun is_module_event :: "event \<Rightarrow> bool" where
  "is_module_event (ModuleCtor T b p) = True"
| "is_module_event (ModuleDtor T) = True"
| "is_module_event e = False"

text \<open>An object-added call that came back, and one that came back reporting success.\<close>

fun added_returned :: "event \<Rightarrow> bool" where
  "added_returned (ObjectAdded b p (Returned rc)) = True"
| "added_returned e = False"

fun added_succeeded :: "event \<Rightarrow> bool" where
  "added_succeeded (ObjectAdded b p (Returned rc)) = (0 \<le> rc)"
| "added_succeeded e = False"

subsection \<open>\<open>details::compose_impl\<close> and \<open>details::compose\<close>\<close>

text \<open>
  \<open>compose_impl<T, Rest...>\<close> has the bases \<open>T\<close> and \<open>compose_impl<Rest...>\<close>, initialised
  in that order with the same \<open>(bus, path)\<close>; \<open>compose_impl<T>\<close> has the single base \<open>T\<close>.
  When the initialisation of a later base raises, the bases already constructed are
  destroyed, last one first, and the exception goes on.
\<close>

fun compose_impl ::
  "iface_module \<Rightarrow> iface_module list \<Rightarrow> bus_bus \<Rightarrow> path \<Rightarrow> event list \<times> (exn + iface_module list)"
where
  "compose_impl T [] bus path =
     (if ctor_throws T
      then ([ModuleCtor (type_name T) bus path], Inl (ModuleCtorError (type_name T)))
      else ([ModuleCtor (type_name T) bus path], Inr [T]))"
| "compose_impl T (R # Rest) bus path =
     (if ctor_throws T
      then ([ModuleCtor (type_name T) bus path], Inl (ModuleCtorError (type_name T)))
      else (case compose_impl R Rest bus path of
              (tr, Inl e) \<Rightarrow>
                (ModuleCtor (type_name T) bus path # tr @ [ModuleDtor (type_name T)], Inl e)
            | (tr, Inr agg) \<Rightarrow>
                (ModuleCtor (type_name T) bus path # tr, Inr (T # agg))))"

text \<open>\<open>compose<Args...>\<close> derives from \<open>compose_impl<Args...>\<close>; \<open>compose<>\<close> has an empty
  constructor body and no base.\<close>

fun compose ::
  "iface_module list \<Rightarrow> bus_bus \<Rightarrow> path \<Rightarrow> event list \<times> (exn + iface_module list)"
where
  "compose [] bus path = ([], Inr [])"
| "compose (T # Rest) bus path = compose_impl T Rest bus path"

subsection \<open>\<open>object<Args...>\<close>\<close>

datatype action = EMIT_OBJECT_ADDED | EMIT_INTERFACE_ADDED | DEFER_EMIT

text \<open>
  The base sub-object and the five data members, in declaration order. The leading
  underscores of the member names are dropped.
\<close>

record object =
  composed :: "iface_module list"
  sdbusplus_server_object_bus :: bus_bus
  sdbusplus_server_object_path :: path
  sdbusplus_server_object_emitremoved :: bool
  sdbusplus_server_object_intf :: nat
  object_action :: action

text \<open>\<open>emit_object_added()\<close>; \<open>r\<close> is the outcome of the call through the interface pointer,
  should the call be made. When the call raises, the assignment after it is not reached and
  the caller is left with the object as it was.\<close>

definition emit_object_added :: "sd_result \<Rightarrow> object \<Rightarrow> event list \<times> (exn + object)" where
  "emit_object_added r this =
     (if \<not> sdbusplus_server_object_emitremoved this
      then (case r of
              Threw \<Rightarrow>
                ([ObjectAdded (bus_get (sdbusplus_server_object_bus this))
                    (sdbusplus_server_object_path this) Threw],
                 Inl SdBusError)
            | Returned rc \<Rightarrow>
                ([ObjectAdded (bus_get (sdbusplus_server_object_bus this))
                    (sdbusplus_server_object_path this) (Returned rc)],
                 Inr (this\<lparr>sdbusplus_server_object_emitremoved := True\<rparr>)))
      else ([], Inr this))"

text \<open>The fold expression \<open>(Args::emit_added(), ...)\<close>: the calls are made left to right, and
  a call that raises ends the fold.\<close>

fun emit_added_all :: "iface_module list \<Rightarrow> event list \<times> (exn + unit)" where
  "emit_added_all [] = ([], Inr ())"
| "emit_added_all (T # Rest) =
     (if emit_added_throws T
      then ([InterfaceAdded (type_name T)], Inl (EmitAddedError (type_name T)))
      else (case emit_added_all Rest of
              (tr, res) \<Rightarrow> (InterfaceAdded (type_name T) # tr, res)))"

definition check_action :: "sd_result \<Rightarrow> object \<Rightarrow> event list \<times> (exn + object)" where
  "check_action r this =
     (if object_action this = EMIT_OBJECT_ADDED
      then emit_object_added r this
      else if object_action this = EMIT_INTERFACE_ADDED
      then (case emit_added_all (composed this) of
              (tr, Inl e) \<Rightarrow> (tr, Inl e)
            | (tr, Inr u) \<Rightarrow> (tr, Inr this))
      else ([], Inr this))"

text \<open>Destruction of the base sub-objects, in reverse order of construction.\<close>

definition destroy_bases :: "iface_module list \<Rightarrow> event list" where
  "destroy_bases agg = map (\<lambda>T. ModuleDtor (type_name T)) (rev agg)"

text \<open>The two data members of class type, \<open>bus::bus\<close> and \<open>std::string\<close>: constructed in
  declaration order, destroyed in the reverse order.\<close>

definition construct_members :: "event list" where
  "construct_members =
     [MemberCtor ''__sdbusplus_server_object_bus'', MemberCtor ''__sdbusplus_server_object_path'']"

definition destroy_members :: "event list" where
  "destroy_members =
     [MemberDtor ''__sdbusplus_server_object_path'', MemberDtor ''__sdbusplus_server_object_bus'']"

text \<open>
  The constructor \<open>object(bus, path, act)\<close>: the base \<open>compose<Args...>(bus, path)\<close>, then
  the members, then the body, which calls \<open>check_action()\<close>. An exception from the base
  leaves the constructor at once. An exception from the body destroys the members and the
  bases; the destructor of \<open>object\<close> itself does not run, the object never having existed.
\<close>

definition object_ctor ::
  "iface_module list \<Rightarrow> bus_bus \<Rightarrow> path \<Rightarrow> action \<Rightarrow> sd_result \<Rightarrow> event list \<times> (exn + object)"
where
  "object_ctor Args bus path act r =
     (case compose Args bus path of
        (tr, Inl e) \<Rightarrow> (tr, Inl e)
      | (tr, Inr agg) \<Rightarrow>
          (case check_action r
                  \<lparr>composed = agg,
                   sdbusplus_server_object_bus =
                     \<lparr>bus_get = bus_get bus, bus_getInterface = bus_getInterface bus\<rparr>,
                   sdbusplus_server_object_path = path,
                   sdbusplus_server_object_emitremoved = False,
                   sdbusplus_server_object_intf = bus_getInterface bus,
                   object_action = act\<rparr> of
             (tr', Inl e) \<Rightarrow>
               (tr @ construct_members @ tr' @ destroy_members @ destroy_bases agg, Inl e)
           | (tr', Inr this) \<Rightarrow> (tr @ construct_members @ tr', Inr this)))"

text \<open>The delegating constructor \<open>object(bus, path, bool deferSignal)\<close>.\<close>

definition object_ctor_defer ::
  "iface_module list \<Rightarrow> bus_bus \<Rightarrow> path \<Rightarrow> bool \<Rightarrow> sd_result \<Rightarrow> event list \<times> (exn + object)"
where
  "object_ctor_defer Args bus path deferSignal r =
     object_ctor Args bus path (if deferSignal then DEFER_EMIT else EMIT_OBJECT_ADDED) r"

text \<open>The body of \<open>~object()\<close>; \<open>r\<close> is the outcome of the call through the interface pointer,
  should the call be made.\<close>

definition object_dtor :: "sd_result \<Rightarrow> object \<Rightarrow> event list \<times> (exn + unit)" where
  "object_dtor r this =
     (if sdbusplus_server_object_emitremoved this
      then ([ObjectRemoved (bus_get (sdbusplus_server_object_bus this))
               (sdbusplus_server_object_path this) r],
            (case r of Threw \<Rightarrow> Inl SdBusError | Returned rc \<Rightarrow> Inr ()))
      else ([], Inr ()))"

text \<open>
  Destroying an \<open>object\<close>: the destructor body, then the members, then the bases. An
  exception that leaves the body of a destructor ends the program, so nothing follows it.
\<close>

definition destroy :: "sd_result \<Rightarrow> object \<Rightarrow> event list \<times> (exn + unit)" where
  "destroy r this =
     (case object_dtor r this of
        (tr, Inl e) \<Rightarrow> (tr, Inl e)
      | (tr, Inr u) \<Rightarrow> (tr @ destroy_members @ destroy_bases (composed this), Inr ()))"

text \<open>
  \<open>object(object&&) = default\<close>: base and members are moved one by one. Moving a \<open>bool\<close>, a
  pointer or an enum copies it and leaves the source as it is. What the move constructors
  of \<open>bus::bus\<close> and \<open>std::string\<close> leave in the source is not fixed by this header:
  \<open>moved_bus\<close> and \<open>moved_path\<close> stand for it. The result is the new object and the source
  after the move.
\<close>

definition object_move_ctor :: "bus_bus \<Rightarrow> path \<Rightarrow> object \<Rightarrow> object \<times> object" where
  "object_move_ctor moved_bus moved_path other =
     (\<lparr>composed = composed other,
       sdbusplus_server_object_bus = sdbusplus_server_object_bus other,
       sdbusplus_server_object_path = sdbusplus_server_object_path other,
       sdbusplus_server_object_emitremoved = sdbusplus_server_object_emitremoved other,
       sdbusplus_server_object_intf = sdbusplus_server_object_intf other,
       object_action = object_action other\<rparr>,
      other\<lparr>sdbusplus_server_object_bus := moved_bus,
            sdbusplus_server_object_path := moved_path\<rparr>)"

text \<open>A caller that invokes \<open>emit_object_added()\<close> once per element of \<open>rs\<close>, catching the
  exception of a call that raises and carrying on with the object as it is.\<close>

fun emit_object_added_calls :: "sd_result list \<Rightarrow> object \<Rightarrow> event list \<times> object" where
  "emit_object_added_calls [] this = ([], this)"
| "emit_object_added_calls (r # rs) this =
     (case emit_object_added r this of
        (tr, Inl e) \<Rightarrow>
          (case emit_object_added_calls rs this of (tr', this') \<Rightarrow> (tr @ tr', this'))
      | (tr, Inr this1) \<Rightarrow>
          (case emit_object_added_calls rs this1 of (tr', this') \<Rightarrow> (tr @ tr', this')))"

subsection \<open>The special member functions of \<open>object\<close>\<close>

text \<open>
  The class declares its five special member functions explicitly: the default constructor
  and both copy operations \<open>= delete\<close>, both move operations \<open>= default\<close>.
\<close>

datatype special_decl = Deleted | Defaulted

record special_members =
  default_ctor :: special_decl
  copy_ctor :: special_decl
  copy_assign :: special_decl
  move_ctor :: special_decl
  move_assign :: special_decl

definition object_special_members :: special_members where
  "object_special_members =
     \<lparr>default_ctor = Deleted, copy_ctor = Deleted, copy_assign = Deleted,
      move_ctor = Defaulted, move_assign = Defaulted\<rparr>"

text \<open>The non-static data members as declared: name, kind of type, \<open>const\<close> qualifier.\<close>

datatype member_type = ClassType | BoolType | PointerType | EnumType

record data_member =
  member_name :: string
  member_type :: member_type
  member_const :: bool

definition object_data_members :: "data_member list" where
  "object_data_members =
     [\<lparr>member_name = ''__sdbusplus_server_object_bus'', member_type = ClassType,
       member_const = False\<rparr>,
      \<lparr>member_name = ''__sdbusplus_server_object_path'', member_type = ClassType,
       member_const = False\<rparr>,
      \<lparr>member_name = ''__sdbusplus_server_object_emitremoved'', member_type = BoolType,
       member_const = False\<rparr>,
      \<lparr>member_name = ''__sdbusplus_server_object_intf'', member_type = PointerType,
       member_const = False\<rparr>,
      \<lparr>member_name = ''__action'', member_type = EnumType, member_const = True\<rparr>]"

text \<open>
  The language rules for a special member function declared in the class. One declared
  \<open>= delete\<close> cannot be called. A constructor declared \<open>= default\<close> is defined as deleted
  when a base or a member of class type lacks the corresponding constructor. An assignment
  operator declared \<open>= default\<close> is defined as deleted under the same condition for the
  corresponding assignment, and also when the class has a non-static data member of a
  \<open>const\<close> non-class type. \<open>parts_ok\<close> says that the base \<open>compose<Args...>\<close> and the members
  of class type, all declared outside this header, support the operation in question.
\<close>

fun blocks_assignment :: "data_member \<Rightarrow> bool" where
  "blocks_assignment m = (member_const m \<and> member_type m \<noteq> ClassType)"

definition ctor_available :: "special_decl \<Rightarrow> bool \<Rightarrow> bool" where
  "ctor_available d parts_ok = (d = Defaulted \<and> parts_ok)"

definition assign_available :: "special_decl \<Rightarrow> data_member list \<Rightarrow> bool \<Rightarrow> bool" where
  "assign_available d members parts_ok =
     (d = Defaulted \<and> parts_ok \<and> filter blocks_assignment members = [])"

section \<open>Properties\<close>

lemmas object_defs =
  object_ctor_def check_action_def emit_object_added_def destroy_def object_dtor_def
  construct_members_def destroy_members_def destroy_bases_def object_move_ctor_def

subsection \<open>The aggregate's constructor\<close>

lemma compose_impl_ok:
  "\<not> ctor_throws T \<Longrightarrow> \<forall>m\<in>set Rest. \<not> ctor_throws m \<Longrightarrow>
   compose_impl T Rest bus path =
     (map (\<lambda>m. ModuleCtor (type_name m) bus path) (T # Rest), Inr (T # Rest))"
  by (induction Rest arbitrary: T) simp_all

lemma compose_ok:
  "\<forall>m\<in>set Args. \<not> ctor_throws m \<Longrightarrow>
   compose Args bus path = (map (\<lambda>m. ModuleCtor (type_name m) bus path) Args, Inr Args)"
  by (cases Args) (simp_all add: compose_impl_ok)

lemma compose_impl_fails:
  "k < length (T # Rest) \<Longrightarrow> ctor_throws ((T # Rest) ! k) \<Longrightarrow>
   \<forall>i<k. \<not> ctor_throws ((T # Rest) ! i) \<Longrightarrow>
   compose_impl T Rest bus path =
     (map (\<lambda>m. ModuleCtor (type_name m) bus path) (take (Suc k) (T # Rest)) @
      map (\<lambda>m. ModuleDtor (type_name m)) (rev (take k (T # Rest))),
      Inl (ModuleCtorError (type_name ((T # Rest) ! k))))"
proof (induction Rest arbitrary: T k)
  case Nil
  then show ?case by simp
next
  case (Cons R Rest)
  show ?case
  proof (cases k)
    case 0
    with Cons.prems show ?thesis by simp
  next
    case (Suc j)
    from Cons.prems Suc have T_ok: "\<not> ctor_throws T" by auto
    from Cons.prems Suc have j1: "j < length (R # Rest)" by simp
    from Cons.prems Suc have j2: "ctor_throws ((R # Rest) ! j)" by simp
    have j3: "\<forall>i<j. \<not> ctor_throws ((R # Rest) ! i)"
    proof (intro allI impI)
      fix i assume "i < j"
      then have "Suc i < k" using Suc by simp
      with Cons.prems(3) have "\<not> ctor_throws ((T # R # Rest) ! Suc i)" by blast
      then show "\<not> ctor_throws ((R # Rest) ! i)" by simp
    qed
    from Cons.IH[OF j1 j2 j3] T_ok Suc show ?thesis by simp
  qed
qed

lemma compose_fails:
  assumes "k < length Args" and "ctor_throws (Args ! k)"
    and "\<forall>i<k. \<not> ctor_throws (Args ! i)"
  shows "compose Args bus path =
     (map (\<lambda>m. ModuleCtor (type_name m) bus path) (take (Suc k) Args) @
      map (\<lambda>m. ModuleDtor (type_name m)) (rev (take k Args)),
      Inl (ModuleCtorError (type_name (Args ! k))))"
proof (cases Args)
  case Nil
  with assms(1) show ?thesis by simp
next
  case (Cons T Rest)
  from assms show ?thesis unfolding Cons compose.simps by (rule compose_impl_fails)
qed

lemma compose_impl_module_events:
  "compose_impl T Rest bus path = (tr, res) \<Longrightarrow> \<forall>e\<in>set tr. is_module_event e"
proof (induction Rest arbitrary: T tr res)
  case Nil
  then show ?case by (auto split: if_splits)
next
  case (Cons R Rest)
  obtain tr' res' where sub: "compose_impl R Rest bus path = (tr', res')"
    by (cases "compose_impl R Rest bus path")
  from Cons.IH[OF sub] have "\<forall>e\<in>set tr'. is_module_event e" .
  with Cons.prems sub show ?case
    by (cases res') (auto split: if_splits)
qed

lemma compose_module_events:
  "compose Args bus path = (tr, res) \<Longrightarrow> \<forall>e\<in>set tr. is_module_event e"
  by (cases Args) (auto dest: compose_impl_module_events)

lemma compose_impl_Inr:
  "compose_impl T Rest bus path = (tr, Inr agg) \<Longrightarrow>
   tr = map (\<lambda>m. ModuleCtor (type_name m) bus path) (T # Rest) \<and> agg = T # Rest"
  by (induction Rest arbitrary: T tr agg) (auto split: prod.splits sum.splits if_splits)

lemma compose_Inr:
  "compose Args bus path = (tr, Inr agg) \<Longrightarrow>
   tr = map (\<lambda>m. ModuleCtor (type_name m) bus path) Args \<and> agg = Args"
  by (cases Args) (auto dest: compose_impl_Inr)

subsection \<open>Which events are notifications\<close>

lemma notification_ctor_events [simp]:
  "filter is_notification (map (\<lambda>m. ModuleCtor (type_name m) bus path) xs) = []"
  "filter is_object_added (map (\<lambda>m. ModuleCtor (type_name m) bus path) xs) = []"
  "filter is_interface_added (map (\<lambda>m. ModuleCtor (type_name m) bus path) xs) = []"
  "filter is_object_removed (map (\<lambda>m. ModuleCtor (type_name m) bus path) xs) = []"
  "filter added_returned (map (\<lambda>m. ModuleCtor (type_name m) bus path) xs) = []"
  by (induction xs) simp_all

lemma notification_dtor_events [simp]:
  "filter is_notification (map (\<lambda>m. ModuleDtor (type_name m)) xs) = []"
  "filter is_object_removed (map (\<lambda>m. ModuleDtor (type_name m)) xs) = []"
  by (induction xs) simp_all

lemma notification_added_events [simp]:
  "filter is_notification (map (\<lambda>m. InterfaceAdded (type_name m)) xs) =
     map (\<lambda>m. InterfaceAdded (type_name m)) xs"
  "filter is_interface_added (map (\<lambda>m. InterfaceAdded (type_name m)) xs) =
     map (\<lambda>m. InterfaceAdded (type_name m)) xs"
  "filter is_object_added (map (\<lambda>m. InterfaceAdded (type_name m)) xs) = []"
  by (induction xs) simp_all

lemma member_events [simp]:
  "filter is_notification construct_members = []"
  "filter is_object_added construct_members = []"
  "filter is_interface_added construct_members = []"
  "filter added_returned construct_members = []"
  "filter is_object_removed construct_members = []"
  "filter is_notification destroy_members = []"
  "filter is_object_removed destroy_members = []"
  by (simp_all add: construct_members_def destroy_members_def)

lemma destroy_bases_events [simp]:
  "filter is_notification (destroy_bases agg) = []"
  "filter is_object_removed (destroy_bases agg) = []"
  by (simp_all add: destroy_bases_def)

lemma emit_added_all_ok:
  "\<forall>m\<in>set Args. \<not> emit_added_throws m \<Longrightarrow>
   emit_added_all Args = (map (\<lambda>m. InterfaceAdded (type_name m)) Args, Inr ())"
  by (induction Args) simp_all

lemma emit_added_all_events:
  "emit_added_all Args = (tr, res) \<Longrightarrow> \<forall>e\<in>set tr. is_interface_added e"
  by (induction Args arbitrary: tr res) (auto split: prod.splits if_splits)

subsection \<open>The destructor\<close>

lemma destroy_removed:
  "filter is_object_removed (fst (destroy rd this)) =
     (if sdbusplus_server_object_emitremoved this
      then [ObjectRemoved (bus_get (sdbusplus_server_object_bus this))
              (sdbusplus_server_object_path this) rd]
      else [])"
  by (cases rd) (simp_all add: destroy_def object_dtor_def)

lemma destroy_notifications:
  "filter is_notification (fst (destroy rd this)) =
     (if sdbusplus_server_object_emitremoved this
      then [ObjectRemoved (bus_get (sdbusplus_server_object_bus this))
              (sdbusplus_server_object_path this) rd]
      else [])"
  by (cases rd) (simp_all add: destroy_def object_dtor_def)

lemma emit_object_added_calls_announced:
  "sdbusplus_server_object_emitremoved this \<Longrightarrow> emit_object_added_calls rs this = ([], this)"
  by (induction rs) (simp_all add: emit_object_added_def)

subsection \<open>Construction with each of the three actions\<close>

lemma object_ctor_defer_action:
  "object_ctor_defer Args bus path True r = object_ctor Args bus path DEFER_EMIT r"
  "object_ctor_defer Args bus path False r = object_ctor Args bus path EMIT_OBJECT_ADDED r"
  by (simp_all add: object_ctor_defer_def)

text \<open>
  Claim C2. Let no binding's constructor raise and let the object-added call come back.
  Then constructing with \<open>EMIT_OBJECT_ADDED\<close> succeeds; among the events of the construction
  there is exactly one object-added call, for the given bus and path, and no
  \<open>emit_added()\<close> call; and destroying the object makes exactly one object-removed call,
  for the same bus and path.
\<close>

theorem construct_emit_object_added:
  assumes "\<forall>T\<in>set Args. \<not> ctor_throws T"
  shows "case object_ctor Args bus path EMIT_OBJECT_ADDED (Returned rc) of
           (tr, Inl e) \<Rightarrow> False
         | (tr, Inr this) \<Rightarrow>
             filter is_notification tr = [ObjectAdded (bus_get bus) path (Returned rc)] \<and>
             length (filter is_object_added tr) = 1 \<and>
             length (filter is_interface_added tr) = 0 \<and>
             filter is_notification (fst (destroy rd this)) =
               [ObjectRemoved (bus_get bus) path rd] \<and>
             length (filter is_object_removed (fst (destroy rd this))) = 1"
  using assms
  by (simp add: object_ctor_def compose_ok check_action_def emit_object_added_def
      destroy_removed destroy_notifications)

theorem construct_emit_object_added_witness:
  "(list_all (\<lambda>T. \<not> ctor_throws T)
      [\<lparr>type_name = ''Power'', ctor_throws = False, emit_added_throws = False\<rparr>,
               \<lparr>type_name = ''Temperature'', ctor_throws = False, emit_added_throws = False\<rparr>]) \<and>
   (case object_ctor
           [\<lparr>type_name = ''Power'', ctor_throws = False, emit_added_throws = False\<rparr>,
            \<lparr>type_name = ''Temperature'', ctor_throws = False, emit_added_throws = False\<rparr>]
           \<lparr>bus_get = 1, bus_getInterface = 2\<rparr> ''/sensors/0'' EMIT_OBJECT_ADDED (Returned 0) of
      (tr, Inl e) \<Rightarrow> False
    | (tr, Inr this) \<Rightarrow>
        filter is_notification tr = [ObjectAdded 1 ''/sensors/0'' (Returned 0)] \<and>
        length (filter is_object_added tr) = 1 \<and>
        length (filter is_interface_added tr) = 0 \<and>
        filter is_notification (fst (destroy (Returned 0) this)) =
          [ObjectRemoved 1 ''/sensors/0'' (Returned 0)] \<and>
        length (filter is_object_removed (fst (destroy (Returned 0) this))) = 1)"
  using construct_emit_object_added
    [where Args = "[\<lparr>type_name = ''Power'', ctor_throws = False, emit_added_throws = False\<rparr>,
          \<lparr>type_name = ''Temperature'', ctor_throws = False, emit_added_throws = False\<rparr>]"
       and bus = "\<lparr>bus_get = 1, bus_getInterface = 2\<rparr>" and path = "''/sensors/0''"
       and rc = 0 and rd = "Returned 0"]
  by (simp add: object_defs)

text \<open>
  Claim C3. Let no binding's constructor and no binding's \<open>emit_added()\<close> raise. Then
  constructing with \<open>EMIT_INTERFACE_ADDED\<close> succeeds; the notifications of the construction
  are the \<open>emit_added()\<close> calls of the bindings, one per binding and in list order, so there
  are as many as bindings and no object-added call among them; the flag
  \<open>__sdbusplus_server_object_emitremoved\<close> is left false; and destroying the object makes no
  object-removed call.
\<close>

theorem construct_emit_interface_added:
  assumes "\<forall>T\<in>set Args. \<not> ctor_throws T" and "\<forall>T\<in>set Args. \<not> emit_added_throws T"
  shows "case object_ctor Args bus path EMIT_INTERFACE_ADDED r of
           (tr, Inl e) \<Rightarrow> False
         | (tr, Inr this) \<Rightarrow>
             filter is_notification tr = map (\<lambda>T. InterfaceAdded (type_name T)) Args \<and>
             length (filter is_interface_added tr) = length Args \<and>
             length (filter is_object_added tr) = 0 \<and>
             \<not> sdbusplus_server_object_emitremoved this \<and>
             length (filter is_object_removed (fst (destroy rd this))) = 0"
  using assms
  by (simp add: object_ctor_def compose_ok check_action_def emit_added_all_ok destroy_removed)

theorem construct_emit_interface_added_witness:
  "(list_all (\<lambda>T. \<not> ctor_throws T)
      [\<lparr>type_name = ''Power'', ctor_throws = False, emit_added_throws = False\<rparr>,
               \<lparr>type_name = ''Temperature'', ctor_throws = False, emit_added_throws = False\<rparr>]) \<and>
   (list_all (\<lambda>T. \<not> emit_added_throws T)
      [\<lparr>type_name = ''Power'', ctor_throws = False, emit_added_throws = False\<rparr>,
               \<lparr>type_name = ''Temperature'', ctor_throws = False, emit_added_throws = False\<rparr>]) \<and>
   (case object_ctor
           [\<lparr>type_name = ''Power'', ctor_throws = False, emit_added_throws = False\<rparr>,
            \<lparr>type_name = ''Temperature'', ctor_throws = False, emit_added_throws = False\<rparr>]
           \<lparr>bus_get = 1, bus_getInterface = 2\<rparr> ''/sensors/0'' EMIT_INTERFACE_ADDED
           (Returned 0) of
      (tr, Inl e) \<Rightarrow> False
    | (tr, Inr this) \<Rightarrow>
        filter is_notification tr = [InterfaceAdded ''Power'', InterfaceAdded ''Temperature''] \<and>
        length (filter is_interface_added tr) = 2 \<and>
        length (filter is_object_added tr) = 0 \<and>
        \<not> sdbusplus_server_object_emitremoved this \<and>
        length (filter is_object_removed (fst (destroy (Returned 0) this))) = 0)"
  using construct_emit_interface_added
    [where Args = "[\<lparr>type_name = ''Power'', ctor_throws = False, emit_added_throws = False\<rparr>,
          \<lparr>type_name = ''Temperature'', ctor_throws = False, emit_added_throws = False\<rparr>]"
       and bus = "\<lparr>bus_get = 1, bus_getInterface = 2\<rparr>" and path = "''/sensors/0''"
       and r = "Returned 0" and rd = "Returned 0"]
  by (simp add: object_defs)

text \<open>
  Claim C4. Let no binding's constructor raise. Then constructing with \<open>DEFER_EMIT\<close>
  succeeds and makes no notification. A call of \<open>emit_object_added()\<close> on the new object
  whose object-added call comes back makes exactly that one call, for the given bus and
  path. After it, a further call of \<open>emit_object_added()\<close> makes no call and leaves the object
  as it is, and so does any sequence of further calls.
\<close>

theorem construct_defer_emit:
  assumes "\<forall>T\<in>set Args. \<not> ctor_throws T"
  shows "case object_ctor Args bus path DEFER_EMIT r of
           (tr, Inl e) \<Rightarrow> False
         | (tr, Inr this) \<Rightarrow>
             filter is_notification tr = [] \<and>
             (case emit_object_added (Returned rc) this of
                (tr1, Inl e) \<Rightarrow> False
              | (tr1, Inr this1) \<Rightarrow>
                  tr1 = [ObjectAdded (bus_get bus) path (Returned rc)] \<and>
                  emit_object_added r2 this1 = ([], Inr this1) \<and>
                  emit_object_added_calls rs this1 = ([], this1))"
  using assms
  by (simp add: object_ctor_def compose_ok check_action_def emit_object_added_def
      emit_object_added_calls_announced)

theorem construct_defer_emit_witness:
  "(list_all (\<lambda>T. \<not> ctor_throws T)
      [\<lparr>type_name = ''Power'', ctor_throws = False, emit_added_throws = False\<rparr>]) \<and>
   (case object_ctor [\<lparr>type_name = ''Power'', ctor_throws = False, emit_added_throws = False\<rparr>]
            \<lparr>bus_get = 1, bus_getInterface = 2\<rparr> ''/sensors/0'' DEFER_EMIT (Returned 0) of
      (tr, Inl e) \<Rightarrow> False
    | (tr, Inr this) \<Rightarrow>
        filter is_notification tr = [] \<and>
        (case emit_object_added (Returned 0) this of
           (tr1, Inl e) \<Rightarrow> False
         | (tr1, Inr this1) \<Rightarrow>
             tr1 = [ObjectAdded 1 ''/sensors/0'' (Returned 0)] \<and>
             emit_object_added (Returned 0) this1 = ([], Inr this1) \<and>
             emit_object_added_calls [Returned 0, Threw, Returned 5] this1 = ([], this1)))"
  using construct_defer_emit
    [where Args = "[\<lparr>type_name = ''Power'', ctor_throws = False, emit_added_throws = False\<rparr>]"
       and bus = "\<lparr>bus_get = 1, bus_getInterface = 2\<rparr>" and path = "''/sensors/0''"
       and r = "Returned 0" and rc = 0 and ?r2.0 = "Returned 0"
       and rs = "[Returned 0, Threw, Returned 5]"]
  by (simp add: object_defs)

subsection \<open>A binding whose constructor raises\<close>

text \<open>
  Claim C5. Let the constructor of the binding at position \<open>k\<close> of the list (counted from
  0, so the claim's index is \<open>k + 1\<close>) raise, and none before it. Then, whatever the action,
  the events of constructing the object are the constructor calls of the bindings up to
  and including position \<open>k\<close>, in list order, followed by the destructor calls of the bindings
  before position \<open>k\<close>, in reverse order; the exception of the failing constructor leaves
  the constructor of the object; and there is no notification among the events.
\<close>

theorem module_ctor_failure:
  assumes "k < length Args" and "ctor_throws (Args ! k)" and "\<forall>i<k. \<not> ctor_throws (Args ! i)"
  shows "object_ctor Args bus path act r =
           (map (\<lambda>T. ModuleCtor (type_name T) bus path) (take (Suc k) Args) @
            map (\<lambda>T. ModuleDtor (type_name T)) (rev (take k Args)),
            Inl (ModuleCtorError (type_name (Args ! k)))) \<and>
         filter is_notification (fst (object_ctor Args bus path act r)) = []"
  using compose_fails[OF assms, of bus path]
  by (simp add: object_ctor_def)

theorem module_ctor_failure_witness:
  "Suc (Suc 0) <
     length [\<lparr>type_name = ''A'', ctor_throws = False, emit_added_throws = False\<rparr>,
             \<lparr>type_name = ''B'', ctor_throws = False, emit_added_throws = False\<rparr>,
             \<lparr>type_name = ''C'', ctor_throws = True, emit_added_throws = False\<rparr>,
             \<lparr>type_name = ''D'', ctor_throws = False, emit_added_throws = False\<rparr>] \<and>
   ctor_throws ([\<lparr>type_name = ''A'', ctor_throws = False, emit_added_throws = False\<rparr>,
                 \<lparr>type_name = ''B'', ctor_throws = False, emit_added_throws = False\<rparr>,
                 \<lparr>type_name = ''C'', ctor_throws = True, emit_added_throws = False\<rparr>,
                 \<lparr>type_name = ''D'', ctor_throws = False, emit_added_throws = False\<rparr>]
                ! Suc (Suc 0)) \<and>
   \<not> ctor_throws ([\<lparr>type_name = ''A'', ctor_throws = False, emit_added_throws = False\<rparr>,
                 \<lparr>type_name = ''B'', ctor_throws = False, emit_added_throws = False\<rparr>,
                 \<lparr>type_name = ''C'', ctor_throws = True, emit_added_throws = False\<rparr>,
                 \<lparr>type_name = ''D'', ctor_throws = False, emit_added_throws = False\<rparr>] ! 0) \<and>
   \<not> ctor_throws ([\<lparr>type_name = ''A'', ctor_throws = False, emit_added_throws = False\<rparr>,
                 \<lparr>type_name = ''B'', ctor_throws = False, emit_added_throws = False\<rparr>,
                 \<lparr>type_name = ''C'', ctor_throws = True, emit_added_throws = False\<rparr>,
                 \<lparr>type_name = ''D'', ctor_throws = False, emit_added_throws = False\<rparr>] ! Suc 0) \<and>
   object_ctor [\<lparr>type_name = ''A'', ctor_throws = False, emit_added_throws = False\<rparr>,
                \<lparr>type_name = ''B'', ctor_throws = False, emit_added_throws = False\<rparr>,
                \<lparr>type_name = ''C'', ctor_throws = True, emit_added_throws = False\<rparr>,
                \<lparr>type_name = ''D'', ctor_throws = False, emit_added_throws = False\<rparr>]
      \<lparr>bus_get = 1, bus_getInterface = 2\<rparr> ''/a'' EMIT_OBJECT_ADDED (Returned 0) =
     ([ModuleCtor ''A'' \<lparr>bus_get = 1, bus_getInterface = 2\<rparr> ''/a'',
       ModuleCtor ''B'' \<lparr>bus_get = 1, bus_getInterface = 2\<rparr> ''/a'',
       ModuleCtor ''C'' \<lparr>bus_get = 1, bus_getInterface = 2\<rparr> ''/a'',
       ModuleDtor ''B'', ModuleDtor ''A''],
      Inl (ModuleCtorError ''C''))"
proof -
  let ?Args = "[\<lparr>type_name = ''A'', ctor_throws = False, emit_added_throws = False\<rparr>,
                \<lparr>type_name = ''B'', ctor_throws = False, emit_added_throws = False\<rparr>,
                \<lparr>type_name = ''C'', ctor_throws = True, emit_added_throws = False\<rparr>,
                \<lparr>type_name = ''D'', ctor_throws = False, emit_added_throws = False\<rparr>]"
  have h1: "Suc (Suc 0) < length ?Args" by simp
  have h2: "ctor_throws (?Args ! Suc (Suc 0))" by simp
  have h3: "\<forall>i<Suc (Suc 0). \<not> ctor_throws (?Args ! i)" by (simp add: less_Suc_eq)
  from module_ctor_failure[OF h1 h2 h3, where bus = "\<lparr>bus_get = 1, bus_getInterface = 2\<rparr>"
      and path = "''/a''" and act = EMIT_OBJECT_ADDED and r = "Returned 0"] h1 h2 h3
  show ?thesis by simp
qed

subsection \<open>Order of construction\<close>

text \<open>
  Claim C7. Let no binding's constructor raise. Then the constructor of
  \<open>compose<Args...>\<close>, given \<open>(bus, path)\<close>, calls the constructors of the bindings in list
  order, each with that same \<open>(bus, path)\<close>, makes no other call, and yields the aggregate of
  all of them. For the empty list the constructor takes the same arguments and does nothing.
\<close>

theorem compose_constructs_in_order:
  assumes "\<forall>T\<in>set Args. \<not> ctor_throws T"
  shows "compose Args bus path = (map (\<lambda>T. ModuleCtor (type_name T) bus path) Args, Inr Args) \<and>
         compose [] bus path = ([], Inr [])"
  using assms by (simp add: compose_ok)

theorem compose_constructs_in_order_witness:
  "(list_all (\<lambda>T. \<not> ctor_throws T)
      [\<lparr>type_name = ''Power'', ctor_throws = False, emit_added_throws = False\<rparr>,
               \<lparr>type_name = ''Temperature'', ctor_throws = False, emit_added_throws = True\<rparr>]) \<and>
   compose [\<lparr>type_name = ''Power'', ctor_throws = False, emit_added_throws = False\<rparr>,
            \<lparr>type_name = ''Temperature'', ctor_throws = False, emit_added_throws = True\<rparr>]
     \<lparr>bus_get = 1, bus_getInterface = 2\<rparr> ''/sensors/0'' =
     ([ModuleCtor ''Power'' \<lparr>bus_get = 1, bus_getInterface = 2\<rparr> ''/sensors/0'',
       ModuleCtor ''Temperature'' \<lparr>bus_get = 1, bus_getInterface = 2\<rparr> ''/sensors/0''],
      Inr [\<lparr>type_name = ''Power'', ctor_throws = False, emit_added_throws = False\<rparr>,
           \<lparr>type_name = ''Temperature'', ctor_throws = False, emit_added_throws = True\<rparr>]) \<and>
   compose [] \<lparr>bus_get = 1, bus_getInterface = 2\<rparr> ''/sensors/0'' = ([], Inr [])"
  using compose_constructs_in_order
    [where Args = "[\<lparr>type_name = ''Power'', ctor_throws = False, emit_added_throws = False\<rparr>,
          \<lparr>type_name = ''Temperature'', ctor_throws = False, emit_added_throws = True\<rparr>]"
       and bus = "\<lparr>bus_get = 1, bus_getInterface = 2\<rparr>" and path = "''/sensors/0''"]
  by simp

subsection \<open>Move construction\<close>

text \<open>
  Claim C10. Let the flag \<open>__sdbusplus_server_object_emitremoved\<close> of an object be set.
  After move-constructing a new object from it, the flag is set in the new object and still
  set in the source. Destroying the new object makes exactly one object-removed call, with
  the bus and path the source had; destroying the source makes exactly one object-removed
  call too, with whatever bus and path the move left in it.
\<close>

theorem move_ctor_copies_flag:
  assumes "sdbusplus_server_object_emitremoved other"
  shows "case object_move_ctor moved_bus moved_path other of
           (new, old) \<Rightarrow>
             sdbusplus_server_object_emitremoved new \<and>
             sdbusplus_server_object_emitremoved old \<and>
             filter is_object_removed (fst (destroy r1 new)) =
               [ObjectRemoved (bus_get (sdbusplus_server_object_bus other))
                  (sdbusplus_server_object_path other) r1] \<and>
             filter is_object_removed (fst (destroy r2 old)) =
               [ObjectRemoved (bus_get moved_bus) moved_path r2]"
  using assms by (simp add: object_move_ctor_def destroy_removed)

theorem move_ctor_copies_flag_witness:
  "sdbusplus_server_object_emitremoved
     \<lparr>composed = [], sdbusplus_server_object_bus = \<lparr>bus_get = 1, bus_getInterface = 2\<rparr>,
      sdbusplus_server_object_path = ''/a'', sdbusplus_server_object_emitremoved = True,
      sdbusplus_server_object_intf = 2, object_action = EMIT_OBJECT_ADDED\<rparr> \<and>
   (case object_move_ctor \<lparr>bus_get = 0, bus_getInterface = 0\<rparr> ''''
      \<lparr>composed = [], sdbusplus_server_object_bus = \<lparr>bus_get = 1, bus_getInterface = 2\<rparr>,
       sdbusplus_server_object_path = ''/a'', sdbusplus_server_object_emitremoved = True,
       sdbusplus_server_object_intf = 2, object_action = EMIT_OBJECT_ADDED\<rparr> of
      (new, old) \<Rightarrow>
        sdbusplus_server_object_emitremoved new \<and>
        sdbusplus_server_object_emitremoved old \<and>
        filter is_object_removed (fst (destroy (Returned 0) new)) =
          [ObjectRemoved 1 ''/a'' (Returned 0)] \<and>
        filter is_object_removed (fst (destroy (Returned (-22)) old)) =
          [ObjectRemoved 0 '''' (Returned (-22))])"
  using move_ctor_copies_flag
    [where other = "\<lparr>composed = [],
         sdbusplus_server_object_bus = \<lparr>bus_get = 1, bus_getInterface = 2\<rparr>,
         sdbusplus_server_object_path = ''/a'', sdbusplus_server_object_emitremoved = True,
         sdbusplus_server_object_intf = 2, object_action = EMIT_OBJECT_ADDED\<rparr>"
      and moved_bus = "\<lparr>bus_get = 0, bus_getInterface = 0\<rparr>" and moved_path = "''''"
      and ?r1.0 = "Returned 0" and ?r2.0 = "Returned (-22)"]
  by (simp add: object_defs)

subsection \<open>The flag and the object-removed signal\<close>

lemma list_ex_filter_conv: "list_ex P xs = (filter P xs \<noteq> [])"
  by (induction xs) simp_all

lemma interface_added_not_returned:
  "\<forall>e\<in>set tr. is_interface_added e \<Longrightarrow> filter added_returned tr = []"
proof (induction tr)
  case Nil
  then show ?case by simp
next
  case (Cons e tr)
  then show ?case by (cases e) simp_all
qed

lemma check_action_flag:
  assumes "\<not> sdbusplus_server_object_emitremoved this"
    and "check_action r this = (tr, Inr this')"
  shows "sdbusplus_server_object_emitremoved this' = list_ex added_returned tr"
proof (cases "object_action this")
  case EMIT_OBJECT_ADDED
  with assms show ?thesis
    by (cases r) (auto simp: check_action_def emit_object_added_def)
next
  case EMIT_INTERFACE_ADDED
  obtain tr' res where ev: "emit_added_all (composed this) = (tr', res)"
    by (cases "emit_added_all (composed this)")
  from emit_added_all_events[OF ev] have "filter added_returned tr' = []"
    by (rule interface_added_not_returned)
  with assms ev EMIT_INTERFACE_ADDED show ?thesis
    by (cases res) (auto simp: check_action_def list_ex_filter_conv)
next
  case DEFER_EMIT
  with assms show ?thesis by (auto simp: check_action_def)
qed

lemma object_ctor_flag:
  assumes "object_ctor Args bus path act r = (tr, Inr this)"
  shows "sdbusplus_server_object_emitremoved this = list_ex added_returned tr"
proof -
  obtain t res where c: "compose Args bus path = (t, res)"
    by (cases "compose Args bus path")
  with assms obtain agg where res: "res = Inr agg"
    by (cases res) (auto simp: object_ctor_def)
  from compose_Inr[OF c[unfolded res]]
  have t: "t = map (\<lambda>m. ModuleCtor (type_name m) bus path) Args" and agg: "agg = Args"
    by simp_all
  let ?fresh = "\<lparr>composed = agg,
      sdbusplus_server_object_bus =
        \<lparr>bus_get = bus_get bus, bus_getInterface = bus_getInterface bus\<rparr>,
      sdbusplus_server_object_path = path,
      sdbusplus_server_object_emitremoved = False,
      sdbusplus_server_object_intf = bus_getInterface bus,
      object_action = act\<rparr>"
  obtain tr' res' where ca: "check_action r ?fresh = (tr', res')"
    by (cases "check_action r ?fresh")
  from assms c res ca have res': "res' = Inr this" and tr: "tr = t @ construct_members @ tr'"
    by (cases res'; simp add: object_ctor_def)+
  have "\<not> sdbusplus_server_object_emitremoved ?fresh" by simp
  from check_action_flag[OF this ca[unfolded res']]
  have "sdbusplus_server_object_emitremoved this = list_ex added_returned tr'" .
  with tr t show ?thesis by (simp add: list_ex_filter_conv)
qed

lemma emit_object_added_calls_flag:
  "emit_object_added_calls rs this = (tr, this') \<Longrightarrow>
   sdbusplus_server_object_emitremoved this' =
     (sdbusplus_server_object_emitremoved this \<or> list_ex added_returned tr)"
proof (induction rs arbitrary: this tr this')
  case Nil
  then show ?case by simp
next
  case (Cons r rs)
  show ?case
  proof (cases "sdbusplus_server_object_emitremoved this")
    case True
    with Cons.prems emit_object_added_calls_announced[OF True, of "r # rs"]
    show ?thesis by simp
  next
    case False
    show ?thesis
    proof (cases r)
      case (Returned rc)
      let ?announced = "this\<lparr>sdbusplus_server_object_emitremoved := True\<rparr>"
      have "emit_object_added_calls rs ?announced = ([], ?announced)"
        by (rule emit_object_added_calls_announced) simp
      with Cons.prems False Returned show ?thesis
        by (auto simp: emit_object_added_def)
    next
      case Threw
      obtain tr' where rest: "emit_object_added_calls rs this = (tr', this')"
        using Cons.prems False Threw
        by (cases "emit_object_added_calls rs this") (auto simp: emit_object_added_def)
      from Cons.prems False Threw rest
      have tr: "tr = ObjectAdded (bus_get (sdbusplus_server_object_bus this))
                  (sdbusplus_server_object_path this) Threw # tr'"
        by (auto simp: emit_object_added_def)
      from Cons.IH[OF rest] tr show ?thesis by simp
    qed
  qed
qed

lemma destroy_removed_iff_flag:
  "list_ex is_object_removed (fst (destroy rd this)) = sdbusplus_server_object_emitremoved this"
  by (simp add: list_ex_filter_conv destroy_removed)

text \<open>
  Claim C1, as the code has it. Take an object made by the constructor
  \<open>object(bus, path, act)\<close>, on which \<open>emit_object_added()\<close> is then called any number of
  times. Its destruction issues the object-removed call if and only if, among the events of
  its construction and of those calls, there is an object-added call that came back,
  whatever the status it came back with; and its destruction issues at most one
  object-removed call.
\<close>

theorem removed_iff_added_returned:
  assumes "object_ctor Args bus path act r0 = (tr0, Inr this0)"
    and "emit_object_added_calls rs this0 = (tr1, this1)"
  shows "list_ex is_object_removed (fst (destroy rd this1)) =
           list_ex added_returned (tr0 @ tr1) \<and>
         length (filter is_object_removed (fst (destroy rd this1))) \<le> 1"
  using object_ctor_flag[OF assms(1)] emit_object_added_calls_flag[OF assms(2)]
  by (simp add: destroy_removed_iff_flag destroy_removed)

theorem removed_iff_added_returned_witness:
  "object_ctor [\<lparr>type_name = ''Power'', ctor_throws = False, emit_added_throws = False\<rparr>]
     \<lparr>bus_get = 1, bus_getInterface = 2\<rparr> ''/a'' DEFER_EMIT (Returned 0) =
     ([ModuleCtor ''Power'' \<lparr>bus_get = 1, bus_getInterface = 2\<rparr> ''/a'',
       MemberCtor ''__sdbusplus_server_object_bus'',
       MemberCtor ''__sdbusplus_server_object_path''],
      Inr \<lparr>composed = [\<lparr>type_name = ''Power'', ctor_throws = False, emit_added_throws = False\<rparr>],
           sdbusplus_server_object_bus = \<lparr>bus_get = 1, bus_getInterface = 2\<rparr>,
           sdbusplus_server_object_path = ''/a'',
           sdbusplus_server_object_emitremoved = False,
           sdbusplus_server_object_intf = 2, object_action = DEFER_EMIT\<rparr>) \<and>
   emit_object_added_calls [Threw, Returned 0, Returned 0]
     \<lparr>composed = [\<lparr>type_name = ''Power'', ctor_throws = False, emit_added_throws = False\<rparr>],
      sdbusplus_server_object_bus = \<lparr>bus_get = 1, bus_getInterface = 2\<rparr>,
      sdbusplus_server_object_path = ''/a'',
      sdbusplus_server_object_emitremoved = False,
      sdbusplus_server_object_intf = 2, object_action = DEFER_EMIT\<rparr> =
     ([ObjectAdded 1 ''/a'' Threw, ObjectAdded 1 ''/a'' (Returned 0)],
      \<lparr>composed = [\<lparr>type_name = ''Power'', ctor_throws = False, emit_added_throws = False\<rparr>],
       sdbusplus_server_object_bus = \<lparr>bus_get = 1, bus_getInterface = 2\<rparr>,
       sdbusplus_server_object_path = ''/a'',
       sdbusplus_server_object_emitremoved = True,
       sdbusplus_server_object_intf = 2, object_action = DEFER_EMIT\<rparr>) \<and>
   list_ex is_object_removed
     (fst (destroy (Returned 0)
        \<lparr>composed = [\<lparr>type_name = ''Power'', ctor_throws = False, emit_added_throws = False\<rparr>],
         sdbusplus_server_object_bus = \<lparr>bus_get = 1, bus_getInterface = 2\<rparr>,
         sdbusplus_server_object_path = ''/a'',
         sdbusplus_server_object_emitremoved = True,
         sdbusplus_server_object_intf = 2, object_action = DEFER_EMIT\<rparr>)) =
     list_ex added_returned
       ([ModuleCtor ''Power'' \<lparr>bus_get = 1, bus_getInterface = 2\<rparr> ''/a'',
         MemberCtor ''__sdbusplus_server_object_bus'',
         MemberCtor ''__sdbusplus_server_object_path''] @
        [ObjectAdded 1 ''/a'' Threw, ObjectAdded 1 ''/a'' (Returned 0)]) \<and>
   length (filter is_object_removed
     (fst (destroy (Returned 0)
        \<lparr>composed = [\<lparr>type_name = ''Power'', ctor_throws = False, emit_added_throws = False\<rparr>],
         sdbusplus_server_object_bus = \<lparr>bus_get = 1, bus_getInterface = 2\<rparr>,
         sdbusplus_server_object_path = ''/a'',
         sdbusplus_server_object_emitremoved = True,
         sdbusplus_server_object_intf = 2, object_action = DEFER_EMIT\<rparr>))) \<le> 1"
proof -
  let ?P = "\<lparr>type_name = ''Power'', ctor_throws = False, emit_added_throws = False\<rparr>"
  let ?b = "\<lparr>bus_get = 1, bus_getInterface = 2\<rparr>"
  let ?o = "\<lambda>f. \<lparr>composed = [?P], sdbusplus_server_object_bus = ?b,
      sdbusplus_server_object_path = ''/a'', sdbusplus_server_object_emitremoved = f,
      sdbusplus_server_object_intf = 2, object_action = DEFER_EMIT\<rparr>"
  have h1: "object_ctor [?P] ?b ''/a'' DEFER_EMIT (Returned 0) =
      ([ModuleCtor ''Power'' ?b ''/a'', MemberCtor ''__sdbusplus_server_object_bus'',
        MemberCtor ''__sdbusplus_server_object_path''], Inr (?o False))"
    by (simp add: object_defs)
  have h2: "emit_object_added_calls [Threw, Returned 0, Returned 0] (?o False) =
      ([ObjectAdded 1 ''/a'' Threw, ObjectAdded 1 ''/a'' (Returned 0)], ?o True)"
    by (simp add: object_defs)
  from removed_iff_added_returned[OF h1 h2, of "Returned 0"] h1 h2
  show ?thesis by simp
qed

text \<open>
  Claim C1 as stated fails in two ways. First, the status of the object-added call is
  not looked at: an object constructed with \<open>DEFER_EMIT\<close> whose only object-added call comes
  back with the failure status \<open>-107\<close> has no successful object-added call in its history, and
  its destruction issues the object-removed call all the same. Second, an object made by
  the move constructor from an announced object has made no call of its own, and both it
  and its source issue the object-removed call when destroyed: two object-removed calls
  for the one object-added call.
\<close>

theorem removed_iff_added_succeeded_counterexample:
  "object_ctor [] \<lparr>bus_get = 1, bus_getInterface = 2\<rparr> ''/a'' DEFER_EMIT (Returned 0) =
     ([MemberCtor ''__sdbusplus_server_object_bus'',
       MemberCtor ''__sdbusplus_server_object_path''],
      Inr \<lparr>composed = [],
           sdbusplus_server_object_bus = \<lparr>bus_get = 1, bus_getInterface = 2\<rparr>,
           sdbusplus_server_object_path = ''/a'',
           sdbusplus_server_object_emitremoved = False,
           sdbusplus_server_object_intf = 2, object_action = DEFER_EMIT\<rparr>) \<and>
   emit_object_added_calls [Returned (- 107)]
     \<lparr>composed = [],
      sdbusplus_server_object_bus = \<lparr>bus_get = 1, bus_getInterface = 2\<rparr>,
      sdbusplus_server_object_path = ''/a'',
      sdbusplus_server_object_emitremoved = False,
      sdbusplus_server_object_intf = 2, object_action = DEFER_EMIT\<rparr> =
     ([ObjectAdded 1 ''/a'' (Returned (- 107))],
      \<lparr>composed = [],
       sdbusplus_server_object_bus = \<lparr>bus_get = 1, bus_getInterface = 2\<rparr>,
       sdbusplus_server_object_path = ''/a'',
       sdbusplus_server_object_emitremoved = True,
       sdbusplus_server_object_intf = 2, object_action = DEFER_EMIT\<rparr>) \<and>
   \<not> list_ex added_succeeded
       ([MemberCtor ''__sdbusplus_server_object_bus'',
         MemberCtor ''__sdbusplus_server_object_path''] @
        [ObjectAdded 1 ''/a'' (Returned (- 107))]) \<and>
   list_ex is_object_removed
     (fst (destroy (Returned 0)
        \<lparr>composed = [],
         sdbusplus_server_object_bus = \<lparr>bus_get = 1, bus_getInterface = 2\<rparr>,
         sdbusplus_server_object_path = ''/a'',
         sdbusplus_server_object_emitremoved = True,
         sdbusplus_server_object_intf = 2, object_action = DEFER_EMIT\<rparr>)) \<and>
   object_ctor [] \<lparr>bus_get = 1, bus_getInterface = 2\<rparr> ''/a'' EMIT_OBJECT_ADDED (Returned 0) =
     ([MemberCtor ''__sdbusplus_server_object_bus'',
       MemberCtor ''__sdbusplus_server_object_path'',
       ObjectAdded 1 ''/a'' (Returned 0)],
      Inr \<lparr>composed = [],
           sdbusplus_server_object_bus = \<lparr>bus_get = 1, bus_getInterface = 2\<rparr>,
           sdbusplus_server_object_path = ''/a'',
           sdbusplus_server_object_emitremoved = True,
           sdbusplus_server_object_intf = 2, object_action = EMIT_OBJECT_ADDED\<rparr>) \<and>
   length (filter is_object_removed
     (fst (destroy (Returned 0)
        (fst (object_move_ctor \<lparr>bus_get = 0, bus_getInterface = 0\<rparr> ''''
           \<lparr>composed = [],
            sdbusplus_server_object_bus = \<lparr>bus_get = 1, bus_getInterface = 2\<rparr>,
            sdbusplus_server_object_path = ''/a'',
            sdbusplus_server_object_emitremoved = True,
            sdbusplus_server_object_intf = 2, object_action = EMIT_OBJECT_ADDED\<rparr>))) @
      fst (destroy (Returned 0)
        (snd (object_move_ctor \<lparr>bus_get = 0, bus_getInterface = 0\<rparr> ''''
           \<lparr>composed = [],
            sdbusplus_server_object_bus = \<lparr>bus_get = 1, bus_getInterface = 2\<rparr>,
            sdbusplus_server_object_path = ''/a'',
            sdbusplus_server_object_emitremoved = True,
            sdbusplus_server_object_intf = 2, object_action = EMIT_OBJECT_ADDED\<rparr>))))) = 2"
  by (simp add: object_defs)

subsection \<open>A failing object-added call\<close>

text \<open>
  Claim C6, as the code has it. Take an object whose flag is not set. If the object-added
  call raises, the exception leaves \<open>emit_object_added()\<close>, the flag is not touched, and
  destroying the object issues no object-removed call. If the call comes back, whatever its
  status, \<open>emit_object_added()\<close> returns normally with the flag set. In the constructor (no
  binding's constructor raising) an object-added call that raises makes the construction
  fail with that exception after the members and the bases have been destroyed, and no
  object-removed call is issued.
\<close>

theorem emit_object_added_raises:
  assumes "\<not> sdbusplus_server_object_emitremoved this" and "\<forall>T\<in>set Args. \<not> ctor_throws T"
  shows "emit_object_added Threw this =
           ([ObjectAdded (bus_get (sdbusplus_server_object_bus this))
               (sdbusplus_server_object_path this) Threw], Inl SdBusError) \<and>
         filter is_object_removed (fst (destroy rd this)) = [] \<and>
         emit_object_added (Returned rc) this =
           ([ObjectAdded (bus_get (sdbusplus_server_object_bus this))
               (sdbusplus_server_object_path this) (Returned rc)],
            Inr (this\<lparr>sdbusplus_server_object_emitremoved := True\<rparr>)) \<and>
         object_ctor Args bus path EMIT_OBJECT_ADDED Threw =
           (map (\<lambda>T. ModuleCtor (type_name T) bus path) Args @ construct_members @
            [ObjectAdded (bus_get bus) path Threw] @ destroy_members @ destroy_bases Args,
            Inl SdBusError) \<and>
         filter is_object_removed (fst (object_ctor Args bus path EMIT_OBJECT_ADDED Threw)) = []"
  using assms
  by (simp add: emit_object_added_def destroy_removed object_ctor_def compose_ok
      check_action_def)

theorem emit_object_added_raises_witness:
  "\<not> sdbusplus_server_object_emitremoved
       \<lparr>composed = [\<lparr>type_name = ''Power'', ctor_throws = False, emit_added_throws = False\<rparr>],
        sdbusplus_server_object_bus = \<lparr>bus_get = 1, bus_getInterface = 2\<rparr>,
        sdbusplus_server_object_path = ''/a'',
        sdbusplus_server_object_emitremoved = False,
        sdbusplus_server_object_intf = 2, object_action = DEFER_EMIT\<rparr> \<and>
   list_all (\<lambda>T. \<not> ctor_throws T)
     [\<lparr>type_name = ''Power'', ctor_throws = False, emit_added_throws = False\<rparr>] \<and>
   emit_object_added Threw
       \<lparr>composed = [\<lparr>type_name = ''Power'', ctor_throws = False, emit_added_throws = False\<rparr>],
        sdbusplus_server_object_bus = \<lparr>bus_get = 1, bus_getInterface = 2\<rparr>,
        sdbusplus_server_object_path = ''/a'',
        sdbusplus_server_object_emitremoved = False,
        sdbusplus_server_object_intf = 2, object_action = DEFER_EMIT\<rparr> =
     ([ObjectAdded 1 ''/a'' Threw], Inl SdBusError) \<and>
   filter is_object_removed
     (fst (destroy (Returned 0)
       \<lparr>composed = [\<lparr>type_name = ''Power'', ctor_throws = False, emit_added_throws = False\<rparr>],
        sdbusplus_server_object_bus = \<lparr>bus_get = 1, bus_getInterface = 2\<rparr>,
        sdbusplus_server_object_path = ''/a'',
        sdbusplus_server_object_emitremoved = False,
        sdbusplus_server_object_intf = 2, object_action = DEFER_EMIT\<rparr>)) = [] \<and>
   object_ctor [\<lparr>type_name = ''Power'', ctor_throws = False, emit_added_throws = False\<rparr>]
       \<lparr>bus_get = 1, bus_getInterface = 2\<rparr> ''/a'' EMIT_OBJECT_ADDED Threw =
     ([ModuleCtor ''Power'' \<lparr>bus_get = 1, bus_getInterface = 2\<rparr> ''/a'',
       MemberCtor ''__sdbusplus_server_object_bus'',
       MemberCtor ''__sdbusplus_server_object_path'',
       ObjectAdded 1 ''/a'' Threw,
       MemberDtor ''__sdbusplus_server_object_path'',
       MemberDtor ''__sdbusplus_server_object_bus'',
       ModuleDtor ''Power''],
      Inl SdBusError)"
  using emit_object_added_raises
    [where this = "\<lparr>composed =
           [\<lparr>type_name = ''Power'', ctor_throws = False, emit_added_throws = False\<rparr>],
        sdbusplus_server_object_bus = \<lparr>bus_get = 1, bus_getInterface = 2\<rparr>,
        sdbusplus_server_object_path = ''/a'',
        sdbusplus_server_object_emitremoved = False,
        sdbusplus_server_object_intf = 2, object_action = DEFER_EMIT\<rparr>"
      and Args = "[\<lparr>type_name = ''Power'', ctor_throws = False, emit_added_throws = False\<rparr>]"
      and bus = "\<lparr>bus_get = 1, bus_getInterface = 2\<rparr>" and path = "''/a''"
      and rd = "Returned 0" and rc = 0]
  by (simp add: object_defs)

text \<open>
  Claim C6 as stated fails for a failure reported by status. The object-added call of an
  object constructed with \<open>DEFER_EMIT\<close> comes back with the failure status \<open>-107\<close>:
  \<open>emit_object_added()\<close> returns normally, the flag is set, and the destructor issues the
  object-removed call. Likewise the constructor with \<open>EMIT_OBJECT_ADDED\<close> succeeds with
  the flag set.
\<close>

theorem failed_status_is_discarded_counterexample:
  "sd_failed (Returned (- 107)) \<and>
   emit_object_added (Returned (- 107))
     \<lparr>composed = [],
      sdbusplus_server_object_bus = \<lparr>bus_get = 1, bus_getInterface = 2\<rparr>,
      sdbusplus_server_object_path = ''/a'',
      sdbusplus_server_object_emitremoved = False,
      sdbusplus_server_object_intf = 2, object_action = DEFER_EMIT\<rparr> =
     ([ObjectAdded 1 ''/a'' (Returned (- 107))],
      Inr \<lparr>composed = [],
           sdbusplus_server_object_bus = \<lparr>bus_get = 1, bus_getInterface = 2\<rparr>,
           sdbusplus_server_object_path = ''/a'',
           sdbusplus_server_object_emitremoved = True,
           sdbusplus_server_object_intf = 2, object_action = DEFER_EMIT\<rparr>) \<and>
   fst (destroy (Returned 0)
     \<lparr>composed = [],
      sdbusplus_server_object_bus = \<lparr>bus_get = 1, bus_getInterface = 2\<rparr>,
      sdbusplus_server_object_path = ''/a'',
      sdbusplus_server_object_emitremoved = True,
      sdbusplus_server_object_intf = 2, object_action = DEFER_EMIT\<rparr>) =
     [ObjectRemoved 1 ''/a'' (Returned 0),
      MemberDtor ''__sdbusplus_server_object_path'',
      MemberDtor ''__sdbusplus_server_object_bus''] \<and>
   object_ctor [] \<lparr>bus_get = 1, bus_getInterface = 2\<rparr> ''/a'' EMIT_OBJECT_ADDED
       (Returned (- 107)) =
     ([MemberCtor ''__sdbusplus_server_object_bus'',
       MemberCtor ''__sdbusplus_server_object_path'',
       ObjectAdded 1 ''/a'' (Returned (- 107))],
      Inr \<lparr>composed = [],
           sdbusplus_server_object_bus = \<lparr>bus_get = 1, bus_getInterface = 2\<rparr>,
           sdbusplus_server_object_path = ''/a'',
           sdbusplus_server_object_emitremoved = True,
           sdbusplus_server_object_intf = 2, object_action = EMIT_OBJECT_ADDED\<rparr>)"
  by (simp add: object_defs)

subsection \<open>Order of events in construction and destruction\<close>

lemma nth_prefix_no_notification:
  assumes "filter is_notification pre = []" and "i < length (pre @ post)"
    and "is_notification ((pre @ post) ! i)"
  shows "length pre \<le> i"
proof (rule ccontr)
  assume "\<not> length pre \<le> i"
  then have lt: "i < length pre" by simp
  then have "(pre @ post) ! i = pre ! i" by (simp add: nth_append)
  with assms(3) have "is_notification (pre ! i)" by simp
  moreover from lt have "pre ! i \<in> set pre" by simp
  ultimately have "pre ! i \<in> set (filter is_notification pre)" by simp
  with assms(1) show False by simp
qed

lemma module_events_no_notification:
  "\<forall>e\<in>set tr. is_module_event e \<Longrightarrow> filter is_notification tr = []"
proof (induction tr)
  case Nil
  then show ?case by simp
next
  case (Cons e tr)
  then show ?case by (cases e) simp_all
qed

lemma object_ctor_trace_shape:
  "(\<exists>e. object_ctor Args bus path act r = (fst (compose Args bus path), Inl e) \<and>
        filter is_notification (fst (compose Args bus path)) = []) \<or>
   (\<exists>post. fst (object_ctor Args bus path act r) =
        (map (\<lambda>T. ModuleCtor (type_name T) bus path) Args @ construct_members) @ post)"
proof -
  obtain t res where c: "compose Args bus path = (t, res)"
    by (cases "compose Args bus path")
  show ?thesis
  proof (cases res)
    case (Inl e)
    from compose_module_events[OF c] have "filter is_notification t = []"
      by (rule module_events_no_notification)
    with c Inl show ?thesis by (simp add: object_ctor_def)
  next
    case (Inr agg)
    from compose_Inr[OF c[unfolded Inr]]
    have t: "t = map (\<lambda>m. ModuleCtor (type_name m) bus path) Args" by simp
    let ?fresh = "\<lparr>composed = agg,
      sdbusplus_server_object_bus =
        \<lparr>bus_get = bus_get bus, bus_getInterface = bus_getInterface bus\<rparr>,
      sdbusplus_server_object_path = path,
      sdbusplus_server_object_emitremoved = False,
      sdbusplus_server_object_intf = bus_getInterface bus,
      object_action = act\<rparr>"
    obtain tr' res' where ca: "check_action r ?fresh = (tr', res')"
      by (cases "check_action r ?fresh")
    from c Inr ca t show ?thesis
      by (cases res') (simp_all add: object_ctor_def)
  qed
qed

text \<open>
  Claim C8. Whenever a notification occurs among the events of constructing an object, at
  position \<open>i\<close>, the events before it begin with the constructor calls of all the bindings,
  in list order, followed by the construction of the members for bus and path; so
  \<open>i\<close> lies behind all of these. In destruction the object-removed call, made when the flag
  is set and with the stored bus and path, is the first event; the destruction of the path
  and bus members and the destructors of the bindings, in reverse order, follow it, unless
  the call raised, in which case nothing follows.
\<close>

theorem emission_after_construction_before_teardown:
  assumes "i < length (fst (object_ctor Args bus path act r))"
    and "is_notification (fst (object_ctor Args bus path act r) ! i)"
  shows "take (length Args + 2) (fst (object_ctor Args bus path act r)) =
           map (\<lambda>T. ModuleCtor (type_name T) bus path) Args @ construct_members \<and>
         length Args + 2 \<le> i \<and>
         fst (destroy rd this) =
           (if sdbusplus_server_object_emitremoved this
            then ObjectRemoved (bus_get (sdbusplus_server_object_bus this))
                   (sdbusplus_server_object_path this) rd #
                 (case rd of
                    Threw \<Rightarrow> []
                  | Returned rc \<Rightarrow>
                      destroy_members @
                      map (\<lambda>T. ModuleDtor (type_name T)) (rev (composed this)))
            else destroy_members @
                 map (\<lambda>T. ModuleDtor (type_name T)) (rev (composed this)))"
proof -
  let ?tr = "fst (object_ctor Args bus path act r)"
  let ?pre = "map (\<lambda>T. ModuleCtor (type_name T) bus path) Args @ construct_members"
  have pre_len: "length ?pre = length Args + 2" by (simp add: construct_members_def)
  have pre_quiet: "filter is_notification ?pre = []" by simp
  from object_ctor_trace_shape[of Args bus path act r]
  obtain post where shape: "?tr = ?pre @ post"
  proof
    assume "\<exists>e. object_ctor Args bus path act r = (fst (compose Args bus path), Inl e) \<and>
        filter is_notification (fst (compose Args bus path)) = []"
    then have quiet: "filter is_notification ?tr = []" by auto
    from assms(1) have "?tr ! i \<in> set ?tr" by simp
    with assms(2) have "?tr ! i \<in> set (filter is_notification ?tr)" by simp
    with quiet have False by simp
    then show thesis ..
  next
    assume "\<exists>post. ?tr = ?pre @ post"
    then obtain post where "?tr = ?pre @ post" ..
    then show thesis by (rule that)
  qed
  have one: "take (length Args + 2) ?tr = ?pre"
    unfolding shape using pre_len by simp
  from assms have "length ?pre \<le> i"
    unfolding shape by (rule nth_prefix_no_notification[OF pre_quiet])
  with pre_len have two: "length Args + 2 \<le> i" by simp
  have three: "fst (destroy rd this) =
           (if sdbusplus_server_object_emitremoved this
            then ObjectRemoved (bus_get (sdbusplus_server_object_bus this))
                   (sdbusplus_server_object_path this) rd #
                 (case rd of
                    Threw \<Rightarrow> []
                  | Returned rc \<Rightarrow>
                      destroy_members @
                      map (\<lambda>T. ModuleDtor (type_name T)) (rev (composed this)))
            else destroy_members @
                 map (\<lambda>T. ModuleDtor (type_name T)) (rev (composed this)))"
    by (cases rd) (simp_all add: destroy_def object_dtor_def destroy_bases_def)
  from one two three show ?thesis by simp
qed

theorem emission_after_construction_before_teardown_witness:
  "3 < length (fst (object_ctor
       [\<lparr>type_name = ''Power'', ctor_throws = False, emit_added_throws = False\<rparr>]
       \<lparr>bus_get = 1, bus_getInterface = 2\<rparr> ''/a'' EMIT_OBJECT_ADDED (Returned 0))) \<and>
   is_notification (fst (object_ctor
       [\<lparr>type_name = ''Power'', ctor_throws = False, emit_added_throws = False\<rparr>]
       \<lparr>bus_get = 1, bus_getInterface = 2\<rparr> ''/a'' EMIT_OBJECT_ADDED (Returned 0)) ! 3) \<and>
   take 3 (fst (object_ctor
       [\<lparr>type_name = ''Power'', ctor_throws = False, emit_added_throws = False\<rparr>]
       \<lparr>bus_get = 1, bus_getInterface = 2\<rparr> ''/a'' EMIT_OBJECT_ADDED (Returned 0))) =
     [ModuleCtor ''Power'' \<lparr>bus_get = 1, bus_getInterface = 2\<rparr> ''/a'',
      MemberCtor ''__sdbusplus_server_object_bus'',
      MemberCtor ''__sdbusplus_server_object_path''] \<and>
   fst (destroy (Returned 0)
       \<lparr>composed = [\<lparr>type_name = ''Power'', ctor_throws = False, emit_added_throws = False\<rparr>,
                    \<lparr>type_name = ''Temperature'', ctor_throws = False,
                     emit_added_throws = False\<rparr>],
        sdbusplus_server_object_bus = \<lparr>bus_get = 1, bus_getInterface = 2\<rparr>,
        sdbusplus_server_object_path = ''/a'',
        sdbusplus_server_object_emitremoved = True,
        sdbusplus_server_object_intf = 2, object_action = EMIT_OBJECT_ADDED\<rparr>) =
     [ObjectRemoved 1 ''/a'' (Returned 0),
      MemberDtor ''__sdbusplus_server_object_path'',
      MemberDtor ''__sdbusplus_server_object_bus'',
      ModuleDtor ''Temperature'', ModuleDtor ''Power'']"
proof -
  let ?tr = "fst (object_ctor
       [\<lparr>type_name = ''Power'', ctor_throws = False, emit_added_throws = False\<rparr>]
       \<lparr>bus_get = 1, bus_getInterface = 2\<rparr> ''/a'' EMIT_OBJECT_ADDED (Returned 0))"
  have tr: "?tr = [ModuleCtor ''Power'' \<lparr>bus_get = 1, bus_getInterface = 2\<rparr> ''/a'',
      MemberCtor ''__sdbusplus_server_object_bus'',
      MemberCtor ''__sdbusplus_server_object_path'',
      ObjectAdded 1 ''/a'' (Returned 0)]"
    by (simp add: object_defs)
  have h1: "3 < length ?tr" unfolding tr by simp
  have h2: "is_notification (?tr ! 3)" unfolding tr by simp
  from emission_after_construction_before_teardown[OF h1 h2,
      where rd = "Returned 0"
        and this = "\<lparr>composed =
            [\<lparr>type_name = ''Power'', ctor_throws = False, emit_added_throws = False\<rparr>,
             \<lparr>type_name = ''Temperature'', ctor_throws = False, emit_added_throws = False\<rparr>],
          sdbusplus_server_object_bus = \<lparr>bus_get = 1, bus_getInterface = 2\<rparr>,
          sdbusplus_server_object_path = ''/a'',
          sdbusplus_server_object_emitremoved = True,
          sdbusplus_server_object_intf = 2, object_action = EMIT_OBJECT_ADDED\<rparr>"]
    h1 h2
  show ?thesis by (simp add: object_defs)
qed

subsection \<open>Copying and moving\<close>

text \<open>
  Claim C9, evaluated on the class as declared. The copy constructor and the copy
  assignment operator are deleted. The move constructor is available exactly when the base
  and the class-type members can be move-constructed. The move assignment operator,
  although declared \<open>= default\<close>, is not available whatever the base and the members
  support, because the member \<open>__action\<close> is a \<open>const\<close> enum.
\<close>

theorem object_move_assign_unavailable:
  "\<not> ctor_available (copy_ctor object_special_members) parts_ok \<and>
   \<not> assign_available (copy_assign object_special_members) object_data_members parts_ok \<and>
   ctor_available (move_ctor object_special_members) parts_ok = parts_ok \<and>
   \<not> assign_available (move_assign object_special_members) object_data_members parts_ok \<and>
   filter blocks_assignment object_data_members =
     [\<lparr>member_name = ''__action'', member_type = EnumType, member_const = True\<rparr>]"
  by (simp add: ctor_available_def assign_available_def object_special_members_def
      object_data_members_def)

end
